theory Spec2Isabelle
  imports Complex_Main "HOL-Library.Word"
begin

unbundle bit_operations_syntax

section \<open>The Gumbel copula sampler of \<^verbatim>\<open>fig_tail_dependence.py\<close>\<close>

text \<open>
  The function \<^verbatim>\<open>gumbel_copula_sample(n, theta)\<close> draws \<^verbatim>\<open>int(n * 1.5)\<close> candidate
  pairs from the process-wide NumPy generator, computes both coordinates of each pair from
  one shared stable variate, masks the invalid candidates out and returns the first \<^verbatim>\<open>n\<close>
  survivors as an array with two columns.

  The model follows the function line by line. A Python float and an element of a NumPy
  float array is an IEEE 754 binary64 value, modelled by its 64 bits, so that the tests the
  source makes on such values (\<^verbatim>\<open>np.isfinite\<close>, \<^verbatim>\<open><\<close>, \<^verbatim>\<open>>\<close>, \<^verbatim>\<open>==\<close>, unary minus, the zero test
  of Python's division) are definitions on bits. The rounded arithmetic and the library
  functions (\<^verbatim>\<open>/\<close>, \<^verbatim>\<open>*\<close>, \<^verbatim>\<open>-\<close>, \<^verbatim>\<open>**\<close>, \<^verbatim>\<open>sin\<close>, \<^verbatim>\<open>cos\<close>, \<^verbatim>\<open>tan\<close>, \<^verbatim>\<open>exp\<close>) and the two
  random draws belong to NumPy and the C library, not to this repository: they are
  parameters of the model, collected in the record \<open>numpy\<close>. The global generator state is
  passed explicitly and returned, also when the function raises. The arguments are a
  Python \<^verbatim>\<open>int\<close> \<open>n\<close> and a Python \<^verbatim>\<open>float\<close> \<open>theta\<close>, as the docstring says.
\<close>

subsection \<open>Binary64 values\<close>

type_synonym float64 = "64 word"

definition f64_negative :: "float64 \<Rightarrow> bool" where
  "f64_negative x = bit x 63"

definition f64_exponent :: "float64 \<Rightarrow> nat" where
  "f64_exponent x = unat (take_bit 11 (drop_bit 52 x))"

definition f64_fraction :: "float64 \<Rightarrow> nat" where
  "f64_fraction x = unat (take_bit 52 x)"

definition f64_magnitude :: "float64 \<Rightarrow> nat" where
  "f64_magnitude x = unat (take_bit 63 x)"

definition f64_is_nan :: "float64 \<Rightarrow> bool" where
  "f64_is_nan x = (f64_exponent x = 2047 \<and> f64_fraction x \<noteq> 0)"

text \<open>\<^verbatim>\<open>np.isfinite\<close>: neither an infinity nor a NaN.\<close>

definition np_isfinite :: "float64 \<Rightarrow> bool" where
  "np_isfinite x = (f64_exponent x \<noteq> 2047)"

text \<open>
  The order of binary64 values is the order of their sign-and-magnitude readings, with both
  zeros equal and a NaN comparing false with everything.
\<close>

definition f64_key :: "float64 \<Rightarrow> int" where
  "f64_key x = (if f64_negative x then - int (f64_magnitude x) else int (f64_magnitude x))"

definition f64_lt :: "float64 \<Rightarrow> float64 \<Rightarrow> bool" where
  "f64_lt x y = (\<not> f64_is_nan x \<and> \<not> f64_is_nan y \<and> f64_key x < f64_key y)"

definition f64_eq :: "float64 \<Rightarrow> float64 \<Rightarrow> bool" where
  "f64_eq x y = (\<not> f64_is_nan x \<and> \<not> f64_is_nan y \<and> f64_key x = f64_key y)"

definition f64_is_zero :: "float64 \<Rightarrow> bool" where
  "f64_is_zero x = (f64_magnitude x = 0)"

text \<open>Unary minus flips the sign bit.\<close>

definition f64_neg :: "float64 \<Rightarrow> float64" where
  "f64_neg x = x XOR 0x8000000000000000"

text \<open>The real number a finite binary64 value stands for.\<close>

definition f64_value :: "float64 \<Rightarrow> real" where
  "f64_value x =
     (if f64_negative x then - 1 else 1) *
     (if f64_exponent x = 0 then real (f64_fraction x) / 2 ^ 1074
      else if f64_exponent x < 1075
        then real (2 ^ 52 + f64_fraction x) / 2 ^ (1075 - f64_exponent x)
        else real (2 ^ 52 + f64_fraction x) * 2 ^ (f64_exponent x - 1075))"

text \<open>The literals of the source: \<^verbatim>\<open>0\<close>, \<^verbatim>\<open>1\<close> (and \<^verbatim>\<open>1.0\<close>), \<^verbatim>\<open>1e-10\<close> and \<^verbatim>\<open>np.pi\<close>.\<close>

definition f64_zero :: float64 where
  "f64_zero = 0x0000000000000000"

definition f64_one :: float64 where
  "f64_one = 0x3FF0000000000000"

definition f64_1e_10 :: float64 where
  "f64_1e_10 = 0x3DDB7CDFD9D7BDBB"

definition f64_pi :: float64 where
  "f64_pi = 0x400921FB54442D18"

subsection \<open>The NumPy environment\<close>

text \<open>
  \<open>fdiv\<close>, \<open>fmul\<close> and \<open>fsub\<close> are the binary64 operations behind \<^verbatim>\<open>/\<close>, \<^verbatim>\<open>*\<close> and \<^verbatim>\<open>-\<close>
  (of Python floats and, element by element, of arrays); \<open>np_power\<close> is \<^verbatim>\<open>**\<close> on an array.
  \<open>random_uniform low high\<close> and \<open>random_exponential scale\<close> draw one value from the
  generator state of type \<open>'g\<close> and return the state that follows.
\<close>

record 'g numpy =
  fdiv :: "float64 \<Rightarrow> float64 \<Rightarrow> float64"
  fmul :: "float64 \<Rightarrow> float64 \<Rightarrow> float64"
  fsub :: "float64 \<Rightarrow> float64 \<Rightarrow> float64"
  np_power :: "float64 \<Rightarrow> float64 \<Rightarrow> float64"
  np_sin :: "float64 \<Rightarrow> float64"
  np_cos :: "float64 \<Rightarrow> float64"
  np_tan :: "float64 \<Rightarrow> float64"
  np_exp :: "float64 \<Rightarrow> float64"
  random_uniform :: "float64 \<Rightarrow> float64 \<Rightarrow> 'g \<Rightarrow> float64 \<times> 'g"
  random_exponential :: "float64 \<Rightarrow> 'g \<Rightarrow> float64 \<times> 'g"

datatype error = ZeroDivisionError | ValueError

text \<open>Python's \<^verbatim>\<open>a / b\<close> on floats raises when \<^verbatim>\<open>b\<close> is a zero of either sign.\<close>

definition py_truediv :: "'g numpy \<Rightarrow> float64 \<Rightarrow> float64 \<Rightarrow> error + float64" where
  "py_truediv np a b = (if f64_is_zero b then Inl ZeroDivisionError else Inr (fdiv np a b))"

text \<open>
  \<^verbatim>\<open>int(n * 1.5)\<close>: the product is a binary64 product and \<^verbatim>\<open>int\<close> truncates towards zero.
  The product is exact, so that the result is \<open>3 * n / 2\<close> truncated, whenever
  \<open>3 * \<bar>n\<bar> < 2 ^ 53\<close>; a larger \<open>n\<close> asks for arrays beyond any memory, and the model
  covers the counts below that bound.
\<close>

definition oversample_count :: "int \<Rightarrow> int" where
  "oversample_count n = (if 0 \<le> n then (3 * n) div 2 else - ((3 * (- n)) div 2))"

text \<open>
  A draw of \<open>sz\<close> values (the \<^verbatim>\<open>size\<close> argument) fills the array one value after the
  other. NumPy rejects a negative size before it draws anything.
\<close>

fun draw :: "('g \<Rightarrow> float64 \<times> 'g) \<Rightarrow> nat \<Rightarrow> 'g \<Rightarrow> float64 list \<times> 'g" where
  "draw d 0 g = ([], g)"
| "draw d (Suc k) g =
     (case d g of (x, g1) \<Rightarrow> (case draw d k g1 of (xs, g2) \<Rightarrow> (x # xs, g2)))"

definition random_array ::
  "('g \<Rightarrow> float64 \<times> 'g) \<Rightarrow> int \<Rightarrow> 'g \<Rightarrow> (error + float64 list) \<times> 'g" where
  "random_array d sz g =
     (if sz < 0 then (Inl ValueError, g)
      else case draw d (nat sz) g of (xs, g') \<Rightarrow> (Inr xs, g'))"

subsection \<open>Array operations\<close>

text \<open>
  An operation on arrays works element by element; a scalar operand is used with every
  element. The two array operands of every binary operation of the source have the same
  length (the oversampled count).
\<close>

definition arr_map :: "(float64 \<Rightarrow> float64) \<Rightarrow> float64 list \<Rightarrow> float64 list" where
  "arr_map f xs = map f xs"

definition arr_map2 ::
  "(float64 \<Rightarrow> float64 \<Rightarrow> float64) \<Rightarrow> float64 list \<Rightarrow> float64 list \<Rightarrow> float64 list" where
  "arr_map2 f xs ys = map2 f xs ys"

definition arr_and :: "bool list \<Rightarrow> bool list \<Rightarrow> bool list" where
  "arr_and bs cs = map2 (\<and>) bs cs"

text \<open>
  \<^verbatim>\<open>xs[mask]\<close>: the elements at the positions where the mask holds, in their order. The
  mask of the source has the length of the array it selects from.
\<close>

definition mask_select :: "'a list \<Rightarrow> bool list \<Rightarrow> 'a list" where
  "mask_select xs m = map fst (filter snd (zip xs m))"

text \<open>\<^verbatim>\<open>xs[:n]\<close>: the first \<open>n\<close> elements, or all but the last \<open>- n\<close> when \<open>n\<close> is negative.\<close>

definition slice_to :: "int \<Rightarrow> 'a list \<Rightarrow> 'a list" where
  "slice_to n xs = (if 0 \<le> n then take (nat n) xs else take (length xs - nat (- n)) xs)"

text \<open>
  A two-dimensional array: its shape and its rows. \<^verbatim>\<open>np.column_stack([a, b])\<close> makes the
  one-dimensional arrays \<open>a\<close> and \<open>b\<close> the two columns, and raises when their lengths differ.
\<close>

record ndarray2 =
  shape :: "nat \<times> nat"
  rows :: "float64 list list"

definition column_stack :: "float64 list \<Rightarrow> float64 list \<Rightarrow> error + ndarray2" where
  "column_stack a b =
     (if length a \<noteq> length b then Inl ValueError
      else Inr \<lparr>shape = (length a, 2), rows = map2 (\<lambda>x y. [x, y]) a b\<rparr>)"

subsection \<open>The sampler\<close>

text \<open>The local variables of a run that has reached the validity mask (line 70).\<close>

record locals =
  alpha_stable :: float64
  n_sample :: int
  W1 :: "float64 list"
  W2 :: "float64 list"
  V :: "float64 list"
  E1 :: "float64 list"
  E2 :: "float64 list"
  U1 :: "float64 list"
  U2 :: "float64 list"
  valid :: "bool list"

text \<open>
  Lines 53 to 58: the stable variates. The two exponents \<^verbatim>\<open>1/alpha_stable\<close> and
  \<^verbatim>\<open>(1 - alpha_stable) / alpha_stable\<close> are Python divisions.
\<close>

definition stable_variates ::
  "'g numpy \<Rightarrow> float64 \<Rightarrow> float64 list \<Rightarrow> float64 list \<Rightarrow> error + float64 list" where
  "stable_variates np a w1 w2 =
     (if f64_eq a f64_one then Inr (arr_map (np_tan np) w1)
      else
        case py_truediv np f64_one a of Inl e \<Rightarrow> Inl e | Inr p \<Rightarrow>
        case py_truediv np (fsub np f64_one a) a of Inl e \<Rightarrow> Inl e | Inr q \<Rightarrow>
          Inr (arr_map2 (fmul np)
                 (arr_map2 (fdiv np)
                    (arr_map (np_sin np) (arr_map (fmul np a) w1))
                    (arr_map (\<lambda>c. np_power np c p) (arr_map (np_cos np) w1)))
                 (arr_map (\<lambda>c. np_power np c q)
                    (arr_map2 (fdiv np)
                       (arr_map (np_cos np) (arr_map2 (fsub np) w1 (arr_map (fmul np a) w1)))
                       w2))))"

text \<open>Lines 66 and 67: one coordinate, \<^verbatim>\<open>np.exp(-(E / V) ** (1/theta))\<close>.\<close>

definition copula_coordinate ::
  "'g numpy \<Rightarrow> float64 \<Rightarrow> float64 list \<Rightarrow> float64 list \<Rightarrow> error + float64 list" where
  "copula_coordinate np theta e v =
     (case py_truediv np f64_one theta of Inl err \<Rightarrow> Inl err | Inr r \<Rightarrow>
        Inr (arr_map (np_exp np)
               (arr_map f64_neg (arr_map (\<lambda>x. np_power np x r) (arr_map2 (fdiv np) e v)))))"

text \<open>Line 70: the validity mask.\<close>

definition validity_mask :: "float64 list \<Rightarrow> float64 list \<Rightarrow> bool list" where
  "validity_mask u1 u2 =
     arr_and (arr_and (arr_and (arr_and (arr_and
       (map np_isfinite u1) (map np_isfinite u2))
       (map (\<lambda>u. f64_lt f64_zero u) u1)) (map (\<lambda>u. f64_lt u f64_one) u1))
       (map (\<lambda>u. f64_lt f64_zero u) u2)) (map (\<lambda>u. f64_lt u f64_one) u2)"

text \<open>Lines 45 to 70, with the generator state threaded through the four draws.\<close>

definition gumbel_candidates ::
  "'g numpy \<Rightarrow> int \<Rightarrow> float64 \<Rightarrow> 'g \<Rightarrow> (error + locals) \<times> 'g" where
  "gumbel_candidates np n theta g0 =
     (case py_truediv np f64_one theta of Inl e \<Rightarrow> (Inl e, g0) | Inr a \<Rightarrow>
      let ns = oversample_count n in
      case random_array (random_uniform np f64_1e_10 (fsub np f64_pi f64_1e_10)) ns g0 of
        (Inl e, g1) \<Rightarrow> (Inl e, g1) | (Inr w1, g1) \<Rightarrow>
      case random_array (random_exponential np f64_one) ns g1 of
        (Inl e, g2) \<Rightarrow> (Inl e, g2) | (Inr w2, g2) \<Rightarrow>
      case stable_variates np a w1 w2 of Inl e \<Rightarrow> (Inl e, g2) | Inr v \<Rightarrow>
      case random_array (random_exponential np f64_one) ns g2 of
        (Inl e, g3) \<Rightarrow> (Inl e, g3) | (Inr e1, g3) \<Rightarrow>
      case random_array (random_exponential np f64_one) ns g3 of
        (Inl e, g4) \<Rightarrow> (Inl e, g4) | (Inr e2, g4) \<Rightarrow>
      case copula_coordinate np theta e1 v of Inl e \<Rightarrow> (Inl e, g4) | Inr u1 \<Rightarrow>
      case copula_coordinate np theta e2 v of Inl e \<Rightarrow> (Inl e, g4) | Inr u2 \<Rightarrow>
        (Inr \<lparr>alpha_stable = a, n_sample = ns, W1 = w1, W2 = w2, V = v, E1 = e1, E2 = e2,
              U1 = u1, U2 = u2, valid = validity_mask u1 u2\<rparr>, g4))"

text \<open>Lines 71 and 73: mask, truncate to \<open>n\<close>, stack the two columns.\<close>

definition gumbel_copula_sample ::
  "'g numpy \<Rightarrow> int \<Rightarrow> float64 \<Rightarrow> 'g \<Rightarrow> (error + ndarray2) \<times> 'g" where
  "gumbel_copula_sample np n theta g0 =
     (case gumbel_candidates np n theta g0 of
        (Inl e, g) \<Rightarrow> (Inl e, g)
      | (Inr L, g) \<Rightarrow>
          (column_stack (slice_to n (mask_select (U1 L) (valid L)))
                        (slice_to n (mask_select (U2 L) (valid L))), g))"

subsection \<open>The formulas of the specification\<close>

text \<open>
  The scalar formulas the specification gives for one candidate, written with the
  operations of the environment, to be compared with what the array code computes at each
  index: the stable variate of the CMS transform,
  \<open>[sin(a W1) / cos(W1)^(1/a)] [cos(W1 - a W1) / W2]^((1 - a)/a)\<close>, the coordinate
  \<open>exp(-(E / V)^(1/theta))\<close>, and the validity predicate on a coordinate and on a pair, with
  the comparisons of the source.
\<close>

definition cms_transform :: "'g numpy \<Rightarrow> float64 \<Rightarrow> float64 \<Rightarrow> float64 \<Rightarrow> float64" where
  "cms_transform np a w1 w2 =
     fmul np
       (fdiv np (np_sin np (fmul np a w1)) (np_power np (np_cos np w1) (fdiv np f64_one a)))
       (np_power np (fdiv np (np_cos np (fsub np w1 (fmul np a w1))) w2)
          (fdiv np (fsub np f64_one a) a))"

definition gumbel_transform :: "'g numpy \<Rightarrow> float64 \<Rightarrow> float64 \<Rightarrow> float64 \<Rightarrow> float64" where
  "gumbel_transform np theta e v =
     np_exp np (f64_neg (np_power np (fdiv np e v) (fdiv np f64_one theta)))"

definition coordinate_valid :: "float64 \<Rightarrow> bool" where
  "coordinate_valid u \<longleftrightarrow> np_isfinite u \<and> f64_lt f64_zero u \<and> f64_lt u f64_one"

text \<open>
  The same predicate in the words of the specification: the coordinate is finite and, as a
  real number, lies strictly inside the open interval \<open>(0, 1)\<close>.
\<close>

definition finite_in_unit_interval :: "float64 \<Rightarrow> bool" where
  "finite_in_unit_interval u \<longleftrightarrow> np_isfinite u \<and> 0 < f64_value u \<and> f64_value u < 1"

definition pair_valid :: "float64 \<Rightarrow> float64 \<Rightarrow> bool" where
  "pair_valid u1 u2 \<longleftrightarrow> coordinate_valid u1 \<and> coordinate_valid u2"

text \<open>
  The four arrays a run of \<open>k\<close> candidates draws from the generator state, in the order of
  the source: \<open>W1\<close>, \<open>W2\<close>, \<open>E1\<close>, \<open>E2\<close>.
\<close>

definition candidate_draws ::
  "'g numpy \<Rightarrow> nat \<Rightarrow> 'g \<Rightarrow> float64 list \<times> float64 list \<times> float64 list \<times> float64 list" where
  "candidate_draws np k g0 =
     (case draw (random_uniform np f64_1e_10 (fsub np f64_pi f64_1e_10)) k g0 of (w1, g1) \<Rightarrow>
      case draw (random_exponential np f64_one) k g1 of (w2, g2) \<Rightarrow>
      case draw (random_exponential np f64_one) k g2 of (e1, g3) \<Rightarrow>
      case draw (random_exponential np f64_one) k g3 of (e2, g4) \<Rightarrow> (w1, w2, e1, e2))"

text \<open>
  The candidate indices that reach the output: those where the mask holds, in increasing
  order, cut after the first \<open>n\<close>.
\<close>

definition kept_indices :: "int \<Rightarrow> bool list \<Rightarrow> nat list" where
  "kept_indices n bs = take (nat n) (filter (\<lambda>i. bs ! i) [0..<length bs])"

subsection \<open>A table environment\<close>

text \<open>
  To run the model on concrete inputs, the arithmetic is given by finite tables: each table
  lists the binary64 result of one operation on the operands that the runs below meet
  (the results of IEEE arithmetic and of the C mathematical library, as bit patterns), and
  answers a NaN elsewhere. The generator state is the tape of the values still to be
  drawn: \<^verbatim>\<open>1.0\<close> is \<open>0x3FF0000000000000\<close>, \<^verbatim>\<open>2.0\<close> is \<open>0x4000000000000000\<close>, \<^verbatim>\<open>0.5\<close> is
  \<open>0x3FE0000000000000\<close> and \<^verbatim>\<open>2.5\<close> is \<open>0x4004000000000000\<close>.
\<close>

definition f64_nan :: float64 where
  "f64_nan = 0x7FF8000000000000"

definition table1 :: "(float64 \<times> float64) list \<Rightarrow> float64 \<Rightarrow> float64" where
  "table1 t x = (case map_of t x of Some y \<Rightarrow> y | None \<Rightarrow> f64_nan)"

definition table2 ::
  "((float64 \<times> float64) \<times> float64) list \<Rightarrow> float64 \<Rightarrow> float64 \<Rightarrow> float64" where
  "table2 t x y = (case map_of t (x, y) of Some z \<Rightarrow> z | None \<Rightarrow> f64_nan)"

definition tape_next :: "float64 list \<Rightarrow> float64 \<times> float64 list" where
  "tape_next g = (case g of [] \<Rightarrow> (f64_nan, []) | x # xs \<Rightarrow> (x, xs))"

definition fdiv_table :: "((float64 \<times> float64) \<times> float64) list" where
  "fdiv_table =
    [((0x3FF0000000000000, 0x4004000000000000), 0x3FD999999999999A),
     ((0x3FF0000000000000, 0x3FD999999999999A), 0x4004000000000000),
     ((0x3FE6F494C2BFFECD, 0x7FF8000000000000), 0x7FF8000000000000),
     ((0x3FD730DE943B79D4, 0x3FF0000000000000), 0x3FD730DE943B79D4),
     ((0x3FE3333333333333, 0x3FD999999999999A), 0x3FF7FFFFFFFFFFFF),
     ((0x3FF0000000000000, 0x7FF8000000000000), 0x7FF8000000000000),
     ((0x3FE0000000000000, 0x7FF8000000000000), 0x7FF8000000000000),
     ((0x3FD8EC3AE92B676B, 0x3FCB7767285FC0E4), 0x3FFD09585C4896C7),
     ((0x3FC96DFF233DD2BC, 0x3FE7164E1FF79162), 0x3FD19F9A2DE4FE34),
     ((0x3FEA69263C485B15, 0x3FF0000000000000), 0x3FEA69263C485B15),
     ((0x3FEE921DD42F09BA, 0x3FF0000000000000), 0x3FEE921DD42F09BA),
     ((0x3FF0000000000000, 0x3FF5C58723A4EA26), 0x3FE7845268033286),
     ((0x3FF0000000000000, 0x3FD074BF2C9CFA90), 0x400F1CFA29A6C406),
     ((0x3FE0000000000000, 0x3FF5C58723A4EA26), 0x3FD7845268033286),
     ((0x3FE0000000000000, 0x3FD074BF2C9CFA90), 0x3FFF1CFA29A6C406),
     ((0x3FF0000000000000, 0x4000000000000000), 0x3FE0000000000000),
     ((0x3FF0000000000000, 0x3FE0000000000000), 0x4000000000000000),
     ((0x3FDEAEE8744B05F0, 0x3FD2AEECD45646FF), 0x3FFA46C8A852DE65),
     ((0x3FEAED548F090CEE, 0x3FC62AB3F249B67F), 0x40136F9AE9CF02CB),
     ((0x3FCFAAEED4F31577, 0x3FE8A51407DA8346), 0x3FD48F3580154715),
     ((0x3FEC1528065B7D50, 0x3FF0000000000000), 0x3FEC1528065B7D50),
     ((0x3FE14A280FB5068C, 0x3FF0000000000000), 0x3FE14A280FB5068C),
     ((0x3FEF01549F7DEEA1, 0x3FF0000000000000), 0x3FEF01549F7DEEA1),
     ((0x3FE0000000000000, 0x3FE0000000000000), 0x3FF0000000000000),
     ((0x3FF0000000000000, 0x3FF70F4EE4AA3132), 0x3FE634013A70AEB5),
     ((0x3FF0000000000000, 0x400500A96EFD20A2), 0x3FD860C16850F77B),
     ((0x3FF0000000000000, 0x3FD3EB96AC25884C), 0x4009B3D4CA44123D),
     ((0x3FE0000000000000, 0x3FF70F4EE4AA3132), 0x3FD634013A70AEB5),
     ((0x3FE0000000000000, 0x400500A96EFD20A2), 0x3FC860C16850F77B),
     ((0x3FE0000000000000, 0x3FD3EB96AC25884C), 0x3FF9B3D4CA44123D),
     ((0x3FF0000000000000, 0x3FF0000000000000), 0x3FF0000000000000),
     ((0x3FF0000000000000, 0x3FF8EB245CBEE3A6), 0x3FE48C05D04E1CFD),
     ((0x3FE0000000000000, 0x3FF8EB245CBEE3A6), 0x3FD48C05D04E1CFD),
     ((0x3FED18F6EAD1B446, 0x3FE7858D00D40E49), 0x3FF3CAF5D4B0057D),
     ((0xBFF0000000000000, 0x4000000000000000), 0xBFE0000000000000),
     ((0x3FF0000000000000, 0x3FFAED548F090CED), 0x3FE303AA9620B225),
     ((0x3FE0000000000000, 0x3FFAED548F090CED), 0x3FD303AA9620B225)]"

definition fmul_table :: "((float64 \<times> float64) \<times> float64) list" where
  "fmul_table =
    [((0x3FD999999999999A, 0x4000000000000000), 0x3FE999999999999A),
     ((0x7FF8000000000000, 0x3FCBEB88E44819FA), 0x7FF8000000000000),
     ((0x3FD999999999999A, 0x3FF0000000000000), 0x3FD999999999999A),
     ((0x3FD999999999999A, 0x3FE0000000000000), 0x3FC999999999999A),
     ((0x3FFD09585C4896C7, 0x3FE7FE5E2CA2EB87), 0x3FF5C58723A4EA26),
     ((0x3FD19F9A2DE4FE34, 0x3FEDE1596B3A9B79), 0x3FD074BF2C9CFA90),
     ((0x3FE0000000000000, 0x3FF0000000000000), 0x3FE0000000000000),
     ((0x3FE0000000000000, 0x4000000000000000), 0x3FF0000000000000),
     ((0x3FE0000000000000, 0x3FE0000000000000), 0x3FD0000000000000),
     ((0x3FFA46C8A852DE65, 0x3FEC1528065B7D50), 0x3FF70F4EE4AA3132),
     ((0x40136F9AE9CF02CB, 0x3FE14A280FB5068C), 0x400500A96EFD20A2),
     ((0x3FD48F3580154715, 0x3FEF01549F7DEEA1), 0x3FD3EB96AC25884C),
     ((0x4000000000000000, 0x3FF0000000000000), 0x4000000000000000),
     ((0x3FF3CAF5D4B0057D, 0x3FF5C463F3075359), 0x3FFAED548F090CED)]"

definition fsub_table :: "((float64 \<times> float64) \<times> float64) list" where
  "fsub_table =
    [((0x400921FB54442D18, 0x3DDB7CDFD9D7BDBB), 0x400921FB5440BD7C),
     ((0x4000000000000000, 0x3FE999999999999A), 0x3FF3333333333333),
     ((0x3FF0000000000000, 0x3FD999999999999A), 0x3FE3333333333333),
     ((0x3FE0000000000000, 0x3FC999999999999A), 0x3FD3333333333333),
     ((0x3FF0000000000000, 0x3FE0000000000000), 0x3FE0000000000000),
     ((0x4000000000000000, 0x3FF0000000000000), 0x3FF0000000000000),
     ((0x3FE0000000000000, 0x3FD0000000000000), 0x3FD0000000000000),
     ((0x3FF0000000000000, 0x4000000000000000), 0xBFF0000000000000)]"

definition np_power_table :: "((float64 \<times> float64) \<times> float64) list" where
  "np_power_table =
    [((0xBFDAA22657537205, 0x4004000000000000), 0x7FF8000000000000),
     ((0x3FD730DE943B79D4, 0x3FF7FFFFFFFFFFFF), 0x3FCBEB88E44819FA),
     ((0x7FF8000000000000, 0x3FD999999999999A), 0x7FF8000000000000),
     ((0x3FE14A280FB5068C, 0x4004000000000000), 0x3FCB7767285FC0E4),
     ((0x3FEC1528065B7D50, 0x4004000000000000), 0x3FE7164E1FF79162),
     ((0x3FEA69263C485B15, 0x3FF7FFFFFFFFFFFF), 0x3FE7FE5E2CA2EB87),
     ((0x3FEE921DD42F09BA, 0x3FF7FFFFFFFFFFFF), 0x3FEDE1596B3A9B79),
     ((0x3FE7845268033286, 0x3FD999999999999A), 0x3FEC4A639985FED3),
     ((0x400F1CFA29A6C406, 0x3FD999999999999A), 0x3FFB8BD4433025E9),
     ((0x3FD7845268033286, 0x3FD999999999999A), 0x3FE570B45CC748F5),
     ((0x3FFF1CFA29A6C406, 0x3FD999999999999A), 0x3FF4E04981963215),
     ((0x3FE14A280FB5068C, 0x4000000000000000), 0x3FD2AEECD45646FF),
     ((0xBFDAA22657537205, 0x4000000000000000), 0x3FC62AB3F249B67F),
     ((0x3FEC1528065B7D50, 0x4000000000000000), 0x3FE8A51407DA8346),
     ((0x3FEC1528065B7D50, 0x3FF0000000000000), 0x3FEC1528065B7D50),
     ((0x3FE14A280FB5068C, 0x3FF0000000000000), 0x3FE14A280FB5068C),
     ((0x3FEF01549F7DEEA1, 0x3FF0000000000000), 0x3FEF01549F7DEEA1),
     ((0x3FE634013A70AEB5, 0x3FE0000000000000), 0x3FEAA7BC4F28CFE7),
     ((0x3FD860C16850F77B, 0x3FE0000000000000), 0x3FE3BFE6A55492B0),
     ((0x4009B3D4CA44123D, 0x3FE0000000000000), 0x3FFCADCBEDD517DE),
     ((0x3FD634013A70AEB5, 0x3FE0000000000000), 0x3FE2D91C158A4597),
     ((0x3FC860C16850F77B, 0x3FE0000000000000), 0x3FDBEE1FAB53A374),
     ((0x3FF9B3D4CA44123D, 0x3FE0000000000000), 0x3FF4476F2522918B),
     ((0x3FE48C05D04E1CFD, 0x3FF0000000000000), 0x3FE48C05D04E1CFD),
     ((0x3FD48C05D04E1CFD, 0x3FF0000000000000), 0x3FD48C05D04E1CFD),
     ((0x3FE14A280FB5068C, 0x3FE0000000000000), 0x3FE7858D00D40E49),
     ((0x3FE14A280FB5068C, 0xBFE0000000000000), 0x3FF5C463F3075359),
     ((0x3FE303AA9620B225, 0x4000000000000000), 0x3FD698B5FBA0AF12),
     ((0x3FD303AA9620B225, 0x4000000000000000), 0x3FB698B5FBA0AF12)]"

definition np_sin_table :: "(float64 \<times> float64) list" where
  "np_sin_table =
    [(0x3FE999999999999A, 0x3FE6F494C2BFFECD),
     (0x3FD999999999999A, 0x3FD8EC3AE92B676B),
     (0x3FC999999999999A, 0x3FC96DFF233DD2BC),
     (0x3FE0000000000000, 0x3FDEAEE8744B05F0),
     (0x3FF0000000000000, 0x3FEAED548F090CEE),
     (0x3FD0000000000000, 0x3FCFAAEED4F31577),
     (0x4000000000000000, 0x3FED18F6EAD1B446)]"

definition np_cos_table :: "(float64 \<times> float64) list" where
  "np_cos_table =
    [(0x4000000000000000, 0xBFDAA22657537205),
     (0x3FF3333333333333, 0x3FD730DE943B79D4),
     (0x3FF0000000000000, 0x3FE14A280FB5068C),
     (0x3FE0000000000000, 0x3FEC1528065B7D50),
     (0x3FE3333333333333, 0x3FEA69263C485B15),
     (0x3FD3333333333333, 0x3FEE921DD42F09BA),
     (0x3FD0000000000000, 0x3FEF01549F7DEEA1),
     (0xBFF0000000000000, 0x3FE14A280FB5068C)]"

definition np_tan_table :: "(float64 \<times> float64) list" where
  "np_tan_table =
    [(0x3FF0000000000000, 0x3FF8EB245CBEE3A6)]"

definition np_exp_table :: "(float64 \<times> float64) list" where
  "np_exp_table =
    [(0xFFF8000000000000, 0xFFF8000000000000),
     (0xBFEC4A639985FED3, 0x3FDA7020CCB2B5AF),
     (0xBFFB8BD4433025E9, 0x3FC6E2094E1FE61A),
     (0xBFE570B45CC748F5, 0x3FE05FE23673165A),
     (0xBFF4E04981963215, 0x3FD15BF7C81B45CC),
     (0xBFEAA7BC4F28CFE7, 0x3FDBD301543B9CEF),
     (0xBFE3BFE6A55492B0, 0x3FE1434E5284C520),
     (0xBFFCADCBEDD517DE, 0x3FC551AB0BBF4364),
     (0xBFE2D91C158A4597, 0x3FE1C19494B334CE),
     (0xBFDBEE1FAB53A374, 0x3FE4AEED415E80CC),
     (0xBFF4476F2522918B, 0x3FD204F07CB289A1),
     (0xBFE48C05D04E1CFD, 0x3FE0D68CBD98940B),
     (0xBFD48C05D04E1CFD, 0x3FE736645FB981C8),
     (0xBFD698B5FBA0AF12, 0x3FE67B1AF3EBFEA8),
     (0xBFB698B5FBA0AF12, 0x3FED4BE7BD94B1F7)]"

definition table_np :: "float64 list numpy" where
  "table_np =
     \<lparr>fdiv = table2 fdiv_table, fmul = table2 fmul_table, fsub = table2 fsub_table,
      np_power = table2 np_power_table,
      np_sin = table1 np_sin_table, np_cos = table1 np_cos_table,
      np_tan = table1 np_tan_table, np_exp = table1 np_exp_table,
      random_uniform = (\<lambda>low high. tape_next),
      random_exponential = (\<lambda>scale. tape_next)\<rparr>"

text \<open>
  The values of \<open>theta\<close> and the tapes of the runs below, and the local variables each
  run ends with.
\<close>

definition f64_half :: float64 where
  "f64_half = 0x3FE0000000000000"

definition f64_two :: float64 where
  "f64_two = 0x4000000000000000"

definition f64_2_5 :: float64 where
  "f64_2_5 = 0x4004000000000000"

definition tape_nan :: "float64 list" where
  "tape_nan = [0x4000000000000000, 0x3FF0000000000000, 0x3FF0000000000000, 0x3FE0000000000000]"

definition tape_three :: "float64 list" where
  "tape_three =
     [0x3FF0000000000000, 0x4000000000000000, 0x3FE0000000000000,
      0x3FF0000000000000, 0x3FF0000000000000, 0x3FF0000000000000,
      0x3FF0000000000000, 0x3FF0000000000000, 0x3FF0000000000000,
      0x3FE0000000000000, 0x3FE0000000000000, 0x3FE0000000000000]"

definition tape_one :: "float64 list" where
  "tape_one = [0x3FF0000000000000, 0x3FF0000000000000, 0x3FF0000000000000, 0x3FE0000000000000]"

definition locals_nan :: locals where
  "locals_nan =
     \<lparr>alpha_stable = 0x3FD999999999999A, n_sample = 1,
      W1 = [0x4000000000000000],
      W2 = [0x3FF0000000000000],
      V = [0x7FF8000000000000],
      E1 = [0x3FF0000000000000],
      E2 = [0x3FE0000000000000],
      U1 = [0xFFF8000000000000],
      U2 = [0xFFF8000000000000],
      valid = [False]\<rparr>"

definition locals_hole :: locals where
  "locals_hole =
     \<lparr>alpha_stable = 0x3FD999999999999A, n_sample = 3,
      W1 = [0x3FF0000000000000, 0x4000000000000000, 0x3FE0000000000000],
      W2 = [0x3FF0000000000000, 0x3FF0000000000000, 0x3FF0000000000000],
      V = [0x3FF5C58723A4EA26, 0x7FF8000000000000, 0x3FD074BF2C9CFA90],
      E1 = [0x3FF0000000000000, 0x3FF0000000000000, 0x3FF0000000000000],
      E2 = [0x3FE0000000000000, 0x3FE0000000000000, 0x3FE0000000000000],
      U1 = [0x3FDA7020CCB2B5AF, 0xFFF8000000000000, 0x3FC6E2094E1FE61A],
      U2 = [0x3FE05FE23673165A, 0xFFF8000000000000, 0x3FD15BF7C81B45CC],
      valid = [True, False, True]\<rparr>"

definition locals_full :: locals where
  "locals_full =
     \<lparr>alpha_stable = 0x3FE0000000000000, n_sample = 3,
      W1 = [0x3FF0000000000000, 0x4000000000000000, 0x3FE0000000000000],
      W2 = [0x3FF0000000000000, 0x3FF0000000000000, 0x3FF0000000000000],
      V = [0x3FF70F4EE4AA3132, 0x400500A96EFD20A2, 0x3FD3EB96AC25884C],
      E1 = [0x3FF0000000000000, 0x3FF0000000000000, 0x3FF0000000000000],
      E2 = [0x3FE0000000000000, 0x3FE0000000000000, 0x3FE0000000000000],
      U1 = [0x3FDBD301543B9CEF, 0x3FE1434E5284C520, 0x3FC551AB0BBF4364],
      U2 = [0x3FE1C19494B334CE, 0x3FE4AEED415E80CC, 0x3FD204F07CB289A1],
      valid = [True, True, True]\<rparr>"

definition locals_cauchy :: locals where
  "locals_cauchy =
     \<lparr>alpha_stable = 0x3FF0000000000000, n_sample = 1,
      W1 = [0x3FF0000000000000],
      W2 = [0x3FF0000000000000],
      V = [0x3FF8EB245CBEE3A6],
      E1 = [0x3FF0000000000000],
      E2 = [0x3FE0000000000000],
      U1 = [0x3FE0D68CBD98940B],
      U2 = [0x3FE736645FB981C8],
      valid = [True]\<rparr>"

definition locals_low_theta :: locals where
  "locals_low_theta =
     \<lparr>alpha_stable = 0x4000000000000000, n_sample = 1,
      W1 = [0x3FF0000000000000],
      W2 = [0x3FF0000000000000],
      V = [0x3FFAED548F090CED],
      E1 = [0x3FF0000000000000],
      E2 = [0x3FE0000000000000],
      U1 = [0x3FE67B1AF3EBFEA8],
      U2 = [0x3FED4BE7BD94B1F7],
      valid = [True]\<rparr>"

section \<open>Properties\<close>

subsection \<open>Draws, divisions and the stages of a run\<close>

lemma draw_length: "length (fst (draw d k g)) = k"
proof (induction k arbitrary: g)
  case 0
  show ?case by simp
next
  case (Suc k)
  obtain x g1 where dg: "d g = (x, g1)" by (cases "d g")
  obtain xs g2 where r: "draw d k g1 = (xs, g2)" by (cases "draw d k g1")
  have "length xs = k" using Suc.IH [of g1] r by simp
  then show ?case by (simp add: dg r)
qed

lemma oversample_count_nonneg: "0 \<le> oversample_count n \<longleftrightarrow> 0 \<le> n"
  by (auto simp: oversample_count_def)

lemma stable_variates_Inr:
  assumes "stable_variates np a w1 w2 = Inr v" and "length w1 = length w2"
  shows "length v = length w1"
    and "f64_eq a f64_one \<or> \<not> f64_is_zero a"
    and "i < length w1 \<Longrightarrow>
           v ! i = (if f64_eq a f64_one then np_tan np (w1 ! i)
                    else cms_transform np a (w1 ! i) (w2 ! i))"
  using assms
  by (auto simp: stable_variates_def arr_map_def arr_map2_def cms_transform_def py_truediv_def
           split: if_splits sum.splits)

lemma copula_coordinate_Inr:
  assumes "copula_coordinate np theta e v = Inr u" and "length e = length v"
  shows "length u = length v"
    and "i < length v \<Longrightarrow> u ! i = gumbel_transform np theta (e ! i) (v ! i)"
  using assms
  by (auto simp: copula_coordinate_def arr_map_def arr_map2_def gumbel_transform_def py_truediv_def
           split: if_splits sum.splits)

lemma validity_mask_length: "length u1 = length u2 \<Longrightarrow> length (validity_mask u1 u2) = length u1"
  by (simp add: validity_mask_def arr_and_def)

lemma validity_mask_nth:
  "length u1 = length u2 \<Longrightarrow> i < length u1 \<Longrightarrow>
     validity_mask u1 u2 ! i = pair_valid (u1 ! i) (u2 ! i)"
  by (auto simp: validity_mask_def arr_and_def pair_valid_def coordinate_valid_def)

lemma mask_select_Cons:
  "mask_select (x # xs) (b # bs) = (if b then x # mask_select xs bs else mask_select xs bs)"
  by (simp add: mask_select_def)

lemma mask_select_indices:
  "length xs = length bs \<Longrightarrow>
     mask_select xs bs = map (\<lambda>i. xs ! i) (filter (\<lambda>i. bs ! i) [0..<length bs])"
proof (induction xs bs rule: list_induct2)
  case Nil
  show ?case by (simp add: mask_select_def)
next
  case (Cons x xs b bs)
  have upt: "[0..<length (b # bs)] = 0 # map Suc [0..<length bs]"
    by (simp add: upt_conv_Cons map_Suc_upt del: upt_Suc)
  show ?case
    unfolding upt mask_select_Cons
    by (simp add: Cons.IH filter_map comp_def)
qed

lemma random_array_nonneg:
  "0 \<le> sz \<Longrightarrow> random_array d sz g = (Inr (fst (draw d (nat sz) g)), snd (draw d (nat sz) g))"
  by (simp add: random_array_def split: prod.splits)

lemma random_array_neg: "sz < 0 \<Longrightarrow> random_array d sz g = (Inl ValueError, g)"
  by (simp add: random_array_def)

lemma candidates_zero_theta:
  "f64_is_zero theta \<Longrightarrow> gumbel_candidates np n theta g = (Inl ZeroDivisionError, g)"
  by (simp add: gumbel_candidates_def py_truediv_def)

lemma candidates_negative:
  "\<not> f64_is_zero theta \<Longrightarrow> n < 0 \<Longrightarrow> gumbel_candidates np n theta g = (Inl ValueError, g)"
  by (simp add: gumbel_candidates_def py_truediv_def oversample_count_nonneg random_array_neg
           Let_def not_le [symmetric])

lemma candidates_Inr_D:
  assumes "gumbel_candidates np n theta g = (Inr L, g')"
  shows "0 \<le> n" and "\<not> f64_is_zero theta"
    and "alpha_stable L = fdiv np f64_one theta"
    and "n_sample L = oversample_count n"
    and "candidate_draws np (nat (oversample_count n)) g = (W1 L, W2 L, E1 L, E2 L)"
    and "stable_variates np (alpha_stable L) (W1 L) (W2 L) = Inr (V L)"
    and "copula_coordinate np theta (E1 L) (V L) = Inr (U1 L)"
    and "copula_coordinate np theta (E2 L) (V L) = Inr (U2 L)"
    and "valid L = validity_mask (U1 L) (U2 L)"
proof -
  show z: "\<not> f64_is_zero theta"
    using assms by (auto simp: gumbel_candidates_def py_truediv_def)
  show n: "0 \<le> n"
  proof (rule ccontr)
    assume "\<not> 0 \<le> n"
    then have "gumbel_candidates np n theta g = (Inl ValueError, g)"
      using z by (simp add: candidates_negative)
    with assms show False by simp
  qed
  have ns: "0 \<le> oversample_count n" using n by (simp add: oversample_count_nonneg)
  have L: "alpha_stable L = fdiv np f64_one theta \<and> n_sample L = oversample_count n \<and>
    candidate_draws np (nat (oversample_count n)) g = (W1 L, W2 L, E1 L, E2 L) \<and>
    stable_variates np (alpha_stable L) (W1 L) (W2 L) = Inr (V L) \<and>
    copula_coordinate np theta (E1 L) (V L) = Inr (U1 L) \<and>
    copula_coordinate np theta (E2 L) (V L) = Inr (U2 L) \<and>
    valid L = validity_mask (U1 L) (U2 L)"
    using assms z ns
    by (auto simp: gumbel_candidates_def py_truediv_def Let_def random_array_nonneg
          candidate_draws_def split: sum.splits prod.splits)
  then show "alpha_stable L = fdiv np f64_one theta" "n_sample L = oversample_count n"
    "candidate_draws np (nat (oversample_count n)) g = (W1 L, W2 L, E1 L, E2 L)"
    "stable_variates np (alpha_stable L) (W1 L) (W2 L) = Inr (V L)"
    "copula_coordinate np theta (E1 L) (V L) = Inr (U1 L)"
    "copula_coordinate np theta (E2 L) (V L) = Inr (U2 L)"
    "valid L = validity_mask (U1 L) (U2 L)"
    by blast+
qed

lemma candidate_draws_lengths:
  assumes "candidate_draws np k g = (w1, w2, e1, e2)"
  shows "length w1 = k" "length w2 = k" "length e1 = k" "length e2 = k"
proof -
  let ?u = "random_uniform np f64_1e_10 (fsub np f64_pi f64_1e_10)"
  let ?e = "random_exponential np f64_one"
  obtain a g1 where d1: "draw ?u k g = (a, g1)" by (cases "draw ?u k g")
  obtain b g2 where d2: "draw ?e k g1 = (b, g2)" by (cases "draw ?e k g1")
  obtain c g3 where d3: "draw ?e k g2 = (c, g3)" by (cases "draw ?e k g2")
  obtain d g4 where d4: "draw ?e k g3 = (d, g4)" by (cases "draw ?e k g3")
  have eq: "w1 = a" "w2 = b" "e1 = c" "e2 = d"
    using assms by (simp_all add: candidate_draws_def d1 d2 d3 d4)
  show "length w1 = k" using draw_length [of ?u k g] by (simp add: d1 eq)
  show "length w2 = k" using draw_length [of ?e k g1] by (simp add: d2 eq)
  show "length e1 = k" using draw_length [of ?e k g2] by (simp add: d3 eq)
  show "length e2 = k" using draw_length [of ?e k g3] by (simp add: d4 eq)
qed

lemma candidates_lengths:
  assumes "gumbel_candidates np n theta g = (Inr L, g')"
  shows "length (W1 L) = nat (oversample_count n)" "length (W2 L) = nat (oversample_count n)"
    "length (V L) = nat (oversample_count n)"
    "length (E1 L) = nat (oversample_count n)" "length (E2 L) = nat (oversample_count n)"
    "length (U1 L) = nat (oversample_count n)" "length (U2 L) = nat (oversample_count n)"
    "length (valid L) = nat (oversample_count n)"
proof -
  note D = candidates_Inr_D [OF assms]
  note dl = candidate_draws_lengths [OF D(5)]
  show w1: "length (W1 L) = nat (oversample_count n)" by (rule dl(1))
  show w2: "length (W2 L) = nat (oversample_count n)" by (rule dl(2))
  show e1: "length (E1 L) = nat (oversample_count n)" by (rule dl(3))
  show e2: "length (E2 L) = nat (oversample_count n)" by (rule dl(4))
  show v: "length (V L) = nat (oversample_count n)"
    using stable_variates_Inr(1) [OF D(6)] w1 w2 by simp
  show u1: "length (U1 L) = nat (oversample_count n)"
    using copula_coordinate_Inr(1) [OF D(7)] e1 v by simp
  show u2: "length (U2 L) = nat (oversample_count n)"
    using copula_coordinate_Inr(1) [OF D(8)] e2 v by simp
  show "length (valid L) = nat (oversample_count n)"
    using validity_mask_length [of "U1 L" "U2 L"] u1 u2 D(9) by simp
qed

lemma stable_variates_Inl:
  "stable_variates np a w1 w2 = Inl e \<Longrightarrow> \<not> f64_eq a f64_one \<and> f64_is_zero a"
  by (auto simp: stable_variates_def py_truediv_def split: if_splits)

lemma candidates_ok:
  assumes "0 \<le> n" and "\<not> f64_is_zero theta"
    and "f64_eq (fdiv np f64_one theta) f64_one \<or> \<not> f64_is_zero (fdiv np f64_one theta)"
  shows "\<exists>L g'. gumbel_candidates np n theta g = (Inr L, g')"
proof -
  have ns: "0 \<le> oversample_count n" using assms(1) by (simp add: oversample_count_nonneg)
  show ?thesis
    using assms(2,3) ns
    by (auto simp: gumbel_candidates_def py_truediv_def Let_def random_array_nonneg
          copula_coordinate_def split: sum.splits prod.splits dest: stable_variates_Inl)
qed

subsection \<open>The returned rows\<close>

lemma map2_same_indices:
  "map2 f (map a idx) (map b idx) = map (\<lambda>i. f (a i) (b i)) idx"
  by (induction idx) simp_all

lemma sample_of_candidates:
  assumes "gumbel_candidates np n theta g = (Inr L, g')"
  shows "gumbel_copula_sample np n theta g =
           (Inr \<lparr>shape = (length (kept_indices n (valid L)), 2),
                 rows = map (\<lambda>i. [U1 L ! i, U2 L ! i]) (kept_indices n (valid L))\<rparr>, g')"
proof -
  note len = candidates_lengths [OF assms]
  have n: "0 \<le> n" by (rule candidates_Inr_D(1) [OF assms])
  have s1: "slice_to n (mask_select (U1 L) (valid L)) =
              map (\<lambda>i. U1 L ! i) (kept_indices n (valid L))"
    using n len by (simp add: slice_to_def mask_select_indices kept_indices_def take_map)
  have s2: "slice_to n (mask_select (U2 L) (valid L)) =
              map (\<lambda>i. U2 L ! i) (kept_indices n (valid L))"
    using n len by (simp add: slice_to_def mask_select_indices kept_indices_def take_map)
  show ?thesis
    unfolding gumbel_copula_sample_def assms
    by (simp add: s1 s2 column_stack_def map2_same_indices)
qed

lemma kept_indices_sorted: "sorted_wrt (<) (kept_indices n bs)"
  unfolding kept_indices_def
  by (intro sorted_wrt_take sorted_wrt_filter) (simp add: sorted_wrt_upt)

lemma kept_indices_set:
  "i \<in> set (kept_indices n bs) \<Longrightarrow> i < length bs \<and> bs ! i"
  unfolding kept_indices_def by (auto dest: in_set_takeD)

subsection \<open>The real value of a valid coordinate\<close>

lemma f64_magnitude_split: "f64_magnitude x = f64_exponent x * 2 ^ 52 + f64_fraction x"
proof -
  have m: "unat (take_bit 63 x) = unat x mod 2 ^ 63"
    unfolding unsigned_take_bit_eq by (rule take_bit_eq_mod)
  have e: "unat (take_bit 11 (drop_bit 52 x)) = unat x div 2 ^ 52 mod 2 ^ 11"
    unfolding unsigned_take_bit_eq unat_drop_bit_eq
    by (simp only: take_bit_eq_mod drop_bit_eq_div)
  have f: "unat (take_bit 52 x) = unat x mod 2 ^ 52"
    unfolding unsigned_take_bit_eq by (rule take_bit_eq_mod)
  have "unat x mod (2 ^ 52 * 2 ^ 11) = 2 ^ 52 * (unat x div 2 ^ 52 mod 2 ^ 11) + unat x mod 2 ^ 52"
    by (rule mod_mult2_eq)
  then show ?thesis
    unfolding f64_magnitude_def f64_exponent_def f64_fraction_def m e f by simp
qed

lemma f64_fraction_less: "f64_fraction x < 2 ^ 52"
proof -
  have "unat (take_bit 52 x) = unat x mod 2 ^ 52"
    unfolding unsigned_take_bit_eq by (rule take_bit_eq_mod)
  then show ?thesis by (simp add: f64_fraction_def)
qed

lemma f64_key_zero: "f64_key f64_zero = 0"
  by (simp add: f64_key_def f64_zero_def f64_magnitude_def f64_negative_def)

lemma f64_key_one: "f64_key f64_one = 1023 * 2 ^ 52"
  by (simp add: f64_key_def f64_one_def f64_magnitude_def f64_negative_def)

lemma f64_value_unit_interval:
  assumes "f64_lt f64_zero u" and "f64_lt u f64_one"
  shows "0 < f64_value u \<and> f64_value u < 1"
proof -
  let ?e = "f64_exponent u" and ?f = "f64_fraction u"
  have pos: "0 < f64_key u" using assms(1) by (simp add: f64_lt_def f64_key_zero)
  have nonneg: "\<not> f64_negative u"
    using pos by (auto simp: f64_key_def split: if_splits)
  have key: "f64_key u = int (?e * 2 ^ 52 + ?f)"
    using nonneg by (simp add: f64_key_def f64_magnitude_split)
  have mpos: "0 < ?e * 2 ^ 52 + ?f" using pos unfolding key by linarith
  have "int (?e * 2 ^ 52 + ?f) < 1023 * 2 ^ 52"
    using assms(2) key by (simp add: f64_lt_def f64_key_one)
  then have "int (?e * 2 ^ 52 + ?f) < int (1023 * 2 ^ 52)" by simp
  then have lt: "?e * 2 ^ 52 + ?f < 1023 * 2 ^ 52" by (simp only: of_nat_less_iff)
  have e: "?e < 1023"
  proof (rule ccontr)
    assume "\<not> ?e < 1023"
    then have "1023 * (2::nat) ^ 52 \<le> ?e * 2 ^ 52" by simp
    with lt show False by linarith
  qed
  have f: "?f < 2 ^ 52" by (rule f64_fraction_less)
  show ?thesis
  proof (cases "?e = 0")
    case True
    have fpos: "0 < ?f" using mpos True by simp
    have "real ?f < 2 ^ 52" using f by (metis of_nat_less_iff of_nat_numeral of_nat_power)
    also have "(2::real) ^ 52 \<le> 2 ^ 1074" by (rule power_increasing) simp_all
    finally have "real ?f < 2 ^ 1074" .
    then have "real ?f / 2 ^ 1074 < 1" by (simp add: divide_less_eq del: power_numeral)
    moreover have "0 < real ?f / 2 ^ 1074" using fpos by (simp del: power_numeral)
    ultimately show ?thesis using True nonneg by (simp add: f64_value_def del: power_numeral)
  next
    case False
    define d where "d = 1075 - ?e"
    have d: "53 \<le> d" using e by (simp add: d_def)
    have "real (2 ^ 52 + ?f) < 2 ^ 53"
    proof -
      have "2 ^ 52 + ?f < 2 ^ 53" using f by simp
      then show ?thesis by (metis of_nat_less_iff of_nat_numeral of_nat_power)
    qed
    also have "(2::real) ^ 53 \<le> 2 ^ d" using d by (intro power_increasing) simp_all
    finally have "real (2 ^ 52 + ?f) < 2 ^ d" .
    then have "real (2 ^ 52 + ?f) / 2 ^ d < 1" by (simp add: divide_less_eq del: power_numeral)
    moreover have "0 < real (2 ^ 52 + ?f) / 2 ^ d"
    proof (rule divide_pos_pos)
      have "0 < 2 ^ 52 + ?f" by simp
      then show "0 < real (2 ^ 52 + ?f)" by (simp only: of_nat_0_less_iff)
      show "0 < (2::real) ^ d" by simp
    qed
    ultimately show ?thesis
      using False nonneg e by (simp add: f64_value_def d_def del: power_numeral)
  qed
qed

lemma f64_finite_not_nan: "np_isfinite u \<Longrightarrow> \<not> f64_is_nan u"
  by (simp add: np_isfinite_def f64_is_nan_def)

lemma f64_not_nan_zero: "\<not> f64_is_nan f64_zero"
  by (simp add: f64_is_nan_def f64_zero_def f64_exponent_def)

lemma f64_not_nan_one: "\<not> f64_is_nan f64_one"
  by (simp add: f64_is_nan_def f64_one_def f64_exponent_def)

lemma f64_value_unit_interval_conv:
  assumes fin: "np_isfinite u" and pos: "0 < f64_value u" and lt: "f64_value u < 1"
  shows "f64_lt f64_zero u \<and> f64_lt u f64_one"
proof -
  let ?e = "f64_exponent u" and ?f = "f64_fraction u"
  define m :: real where
    "m = (if ?e = 0 then real ?f / 2 ^ 1074
          else if ?e < 1075 then real (2 ^ 52 + ?f) / 2 ^ (1075 - ?e)
          else real (2 ^ 52 + ?f) * 2 ^ (?e - 1075))"
  have m0: "0 \<le> m" by (simp add: m_def del: power_numeral)
  have val: "f64_value u = (if f64_negative u then - 1 else 1) * m"
    by (simp add: f64_value_def m_def del: power_numeral)
  have nonneg: "\<not> f64_negative u"
  proof
    assume "f64_negative u"
    then have "f64_value u = - m" by (simp add: val)
    with m0 pos show False by simp
  qed
  have vm: "f64_value u = m" using nonneg by (simp add: val)
  have f: "?f < 2 ^ 52" by (rule f64_fraction_less)
  have e: "?e < 1023"
  proof (rule ccontr)
    assume ge: "\<not> ?e < 1023"
    have "1 \<le> m"
    proof (cases "?e < 1075")
      case True
      define d where "d = 1075 - ?e"
      have d: "d \<le> 52" using ge by (simp add: d_def)
      have "(2::real) ^ d \<le> 2 ^ 52" using d by (intro power_increasing) simp_all
      also have "\<dots> \<le> real (2 ^ 52 + ?f)" by simp
      finally have "(2::real) ^ d \<le> real (2 ^ 52 + ?f)" .
      then have "1 \<le> real (2 ^ 52 + ?f) / 2 ^ d" by (simp add: le_divide_eq del: power_numeral)
      then show ?thesis using True ge by (simp add: m_def d_def del: power_numeral)
    next
      case False
      have "(1::real) \<le> 2 ^ 52" by simp
      also have "\<dots> \<le> real (2 ^ 52 + ?f)" by simp
      finally have a: "1 \<le> real (2 ^ 52 + ?f)" .
      have b: "(1::real) \<le> 2 ^ (?e - 1075)" by simp
      have "1 * 1 \<le> real (2 ^ 52 + ?f) * 2 ^ (?e - 1075)"
        using a b by (intro mult_mono) simp_all
      then show ?thesis using False by (simp add: m_def del: power_numeral)
    qed
    with lt vm show False by simp
  qed
  have mag: "f64_magnitude u = ?e * 2 ^ 52 + ?f" by (rule f64_magnitude_split)
  have mpos: "0 < ?e * 2 ^ 52 + ?f"
  proof (rule ccontr)
    assume "\<not> 0 < ?e * 2 ^ 52 + ?f"
    then have "?e = 0" "?f = 0" by simp_all
    then have "m = 0" by (simp add: m_def)
    with pos vm show False by simp
  qed
  have "?e * 2 ^ 52 \<le> 1022 * (2::nat) ^ 52" using e by simp
  then have mlt: "?e * 2 ^ 52 + ?f < 1023 * 2 ^ 52" using f by linarith
  have key: "f64_key u = int (?e * 2 ^ 52 + ?f)"
    using nonneg by (simp add: f64_key_def mag)
  have k0: "0 < f64_key u" unfolding key using mpos by linarith
  have "int (?e * 2 ^ 52 + ?f) < int (1023 * 2 ^ 52)" using mlt by (simp only: of_nat_less_iff)
  then have k1: "f64_key u < 1023 * 2 ^ 52" unfolding key by simp
  show ?thesis
    using k0 k1 f64_finite_not_nan [OF fin]
    by (simp add: f64_lt_def f64_key_zero f64_key_one f64_not_nan_zero f64_not_nan_one)
qed

lemma coordinate_valid_iff_value: "coordinate_valid u \<longleftrightarrow> finite_in_unit_interval u"
  using f64_value_unit_interval [of u] f64_value_unit_interval_conv [of u]
  by (auto simp: coordinate_valid_def finite_in_unit_interval_def)

subsection \<open>What a run that raises reports, and what a run depends on\<close>

lemma candidates_Inl_D:
  assumes "gumbel_candidates np n theta g = (Inl e, g')"
  shows "e = (if \<not> f64_is_zero theta \<and> n < 0 then ValueError else ZeroDivisionError)"
proof (cases "f64_is_zero theta")
  case True
  then show ?thesis using assms by (simp add: candidates_zero_theta)
next
  case z: False
  show ?thesis
  proof (cases "n < 0")
    case True
    then show ?thesis using assms z by (simp add: candidates_negative)
  next
    case False
    then have ns: "0 \<le> oversample_count n" by (simp add: oversample_count_nonneg)
    have "e = ZeroDivisionError"
      using assms z ns
      by (auto simp: gumbel_candidates_def py_truediv_def Let_def random_array_nonneg
            copula_coordinate_def stable_variates_def split: sum.splits prod.splits if_splits)
    then show ?thesis using False by simp
  qed
qed

lemma candidate_draws_fst:
  assumes "candidate_draws np k g = (w1, w2, e1, e2)"
  shows "w1 = fst (draw (random_uniform np f64_1e_10 (fsub np f64_pi f64_1e_10)) k g)"
    and "w2 = fst (draw (random_exponential np f64_one) k
                 (snd (draw (random_uniform np f64_1e_10 (fsub np f64_pi f64_1e_10)) k g)))"
  using assms by (auto simp: candidate_draws_def split: prod.splits)

lemma candidates_same_draws:
  assumes g: "gumbel_candidates np n theta g = (Inr L, g')"
    and h: "gumbel_candidates np n theta h = (Inr M, h')"
    and d: "candidate_draws np (nat (oversample_count n)) g =
            candidate_draws np (nat (oversample_count n)) h"
  shows "U1 M = U1 L" and "U2 M = U2 L" and "valid M = valid L"
proof -
  note DL = candidates_Inr_D [OF g] and DM = candidates_Inr_D [OF h]
  have w: "W1 M = W1 L" "W2 M = W2 L" "E1 M = E1 L" "E2 M = E2 L"
    using DL(5) DM(5) d by simp_all
  have a: "alpha_stable M = alpha_stable L" using DL(3) DM(3) by simp
  have v: "V M = V L" using DL(6) DM(6) w a by simp
  show u1: "U1 M = U1 L" using DL(7) DM(7) w v by simp
  show u2: "U2 M = U2 L" using DL(8) DM(8) w v by simp
  show "valid M = valid L" using DL(9) DM(9) u1 u2 by simp
qed

lemma f64_lt_zero_nonzero:
  assumes "f64_lt f64_zero x"
  shows "\<not> f64_is_zero x"
proof -
  have "0 < f64_key x" using assms by (simp add: f64_lt_def f64_key_zero)
  then show ?thesis by (auto simp: f64_key_def f64_is_zero_def split: if_splits)
qed

lemma f64_eq_one_nonzero:
  assumes "f64_eq x f64_one"
  shows "\<not> f64_is_zero x"
proof -
  have "f64_key x = 1023 * 2 ^ 52" using assms by (simp add: f64_eq_def f64_key_one)
  then show ?thesis by (auto simp: f64_key_def f64_is_zero_def split: if_splits)
qed

subsection \<open>The runs on the table environment\<close>

lemmas f64_defs = f64_lt_def f64_eq_def f64_is_nan_def f64_key_def f64_exponent_def
  f64_fraction_def f64_magnitude_def f64_negative_def f64_is_zero_def np_isfinite_def
  f64_neg_def f64_zero_def f64_one_def f64_1e_10_def f64_pi_def f64_nan_def
  f64_half_def f64_two_def f64_2_5_def

lemmas table_defs = table_np_def table1_def table2_def tape_next_def fdiv_table_def
  fmul_table_def fsub_table_def np_power_table_def np_sin_table_def np_cos_table_def
  np_tan_table_def np_exp_table_def

lemmas candidates_defs = gumbel_candidates_def stable_variates_def copula_coordinate_def
  validity_mask_def py_truediv_def oversample_count_def random_array_def arr_map_def
  arr_map2_def arr_and_def

lemma run_nan: "gumbel_candidates table_np 1 f64_2_5 tape_nan = (Inr locals_nan, [])"
  by (simp add: candidates_defs table_defs f64_defs tape_nan_def locals_nan_def)

lemma run_hole: "gumbel_candidates table_np 2 f64_2_5 tape_three = (Inr locals_hole, [])"
  by (simp add: candidates_defs table_defs f64_defs tape_three_def locals_hole_def numeral_3_eq_3)

lemma run_full: "gumbel_candidates table_np 2 f64_two tape_three = (Inr locals_full, [])"
  by (simp add: candidates_defs table_defs f64_defs tape_three_def locals_full_def numeral_3_eq_3)

lemma run_cauchy: "gumbel_candidates table_np 1 f64_one tape_one = (Inr locals_cauchy, [])"
  by (simp add: candidates_defs table_defs f64_defs tape_one_def locals_cauchy_def)

lemma run_low_theta: "gumbel_candidates table_np 1 f64_half tape_one = (Inr locals_low_theta, [])"
  by (simp add: candidates_defs table_defs f64_defs tape_one_def locals_low_theta_def)

lemma sample_hole:
  "gumbel_copula_sample table_np 2 f64_2_5 tape_three =
     (Inr \<lparr>shape = (2, 2),
           rows = [[0x3FDA7020CCB2B5AF, 0x3FE05FE23673165A],
                   [0x3FC6E2094E1FE61A, 0x3FD15BF7C81B45CC]]\<rparr>, [])"
  by (simp add: sample_of_candidates [OF run_hole] kept_indices_def locals_hole_def
        upt_conv_Cons)

lemma sample_full:
  "gumbel_copula_sample table_np 2 f64_two tape_three =
     (Inr \<lparr>shape = (2, 2),
           rows = [[0x3FDBD301543B9CEF, 0x3FE1C19494B334CE],
                   [0x3FE1434E5284C520, 0x3FE4AEED415E80CC]]\<rparr>, [])"
  by (simp add: sample_of_candidates [OF run_full] kept_indices_def locals_full_def
        upt_conv_Cons)

lemma sample_cauchy:
  "gumbel_copula_sample table_np 1 f64_one tape_one =
     (Inr \<lparr>shape = (1, 2), rows = [[0x3FE0D68CBD98940B, 0x3FE736645FB981C8]]\<rparr>, [])"
  by (simp add: sample_of_candidates [OF run_cauchy] kept_indices_def locals_cauchy_def)

lemma sample_low_theta:
  "gumbel_copula_sample table_np 1 f64_half tape_one =
     (Inr \<lparr>shape = (1, 2), rows = [[0x3FE67B1AF3EBFEA8, 0x3FED4BE7BD94B1F7]]\<rparr>, [])"
  by (simp add: sample_of_candidates [OF run_low_theta] kept_indices_def locals_low_theta_def)

lemma sample_zero:
  assumes "\<not> f64_is_zero theta"
    and "f64_eq (fdiv np f64_one theta) f64_one \<or> \<not> f64_is_zero (fdiv np f64_one theta)"
  shows "gumbel_copula_sample np 0 theta g = (Inr \<lparr>shape = (0, 2), rows = []\<rparr>, g)"
  using assms
  by (auto simp: gumbel_copula_sample_def gumbel_candidates_def py_truediv_def
        oversample_count_def random_array_def stable_variates_def copula_coordinate_def
        validity_mask_def arr_map_def arr_map2_def arr_and_def mask_select_def slice_to_def
        column_stack_def)

lemma sample_zero_theta:
  "f64_is_zero theta \<Longrightarrow> gumbel_copula_sample np n theta g = (Inl ZeroDivisionError, g)"
  by (simp add: gumbel_copula_sample_def candidates_zero_theta)

lemma sample_negative:
  "\<not> f64_is_zero theta \<Longrightarrow> n < 0 \<Longrightarrow> gumbel_copula_sample np n theta g = (Inl ValueError, g)"
  by (simp add: gumbel_copula_sample_def candidates_negative)

section \<open>The claims\<close>

text \<open>
  C1. The claim: the generator returns exactly \<open>n\<close> valid pairs or raises, and never a
  batch with fewer than \<open>n\<close> pairs. The code returns fewer. With \<open>n = 1\<close> and the script's
  own \<open>theta = 2.5\<close>, one candidate is drawn; with \<open>W1 = 2.0\<close> (any draw beyond \<open>pi / 2\<close>
  does the same) \<open>cos(W1)\<close> is negative, its power \<open>2.5\<close> is a NaN, so are \<open>V\<close>, \<open>U1\<close> and
  \<open>U2\<close>, the mask rejects the candidate, and the function returns an array of shape
  \<open>(0, 2)\<close> without raising, although its docstring promises shape \<open>(n, 2)\<close>.
\<close>

theorem fewer_than_n_pairs_returned:
  "gumbel_copula_sample table_np 1 f64_2_5 tape_nan = (Inr \<lparr>shape = (0, 2), rows = []\<rparr>, [])"
  by (simp add: sample_of_candidates [OF run_nan] kept_indices_def locals_nan_def)

text \<open>
  C2. Every coordinate of every returned pair is finite and lies strictly inside the open
  interval \<open>(0, 1)\<close>; and the validity filter keeps a candidate pair (the mask holds at its
  index) if and only if both of its coordinates are finite and satisfy \<open>0 < u < 1\<close>. The
  interval is meant of the real values the coordinates stand for; the comparisons of the
  source decide exactly that.
\<close>

theorem returned_pairs_valid:
  assumes "gumbel_candidates np n theta g = (Inr L, g')"
  shows "(\<exists>B. gumbel_copula_sample np n theta g = (Inr B, g') \<and>
            (\<forall>r \<in> set (rows B). \<exists>u1 u2. r = [u1, u2] \<and>
               finite_in_unit_interval u1 \<and> finite_in_unit_interval u2)) \<and>
         (\<forall>i < nat (oversample_count n).
            valid L ! i \<longleftrightarrow>
              finite_in_unit_interval (U1 L ! i) \<and> finite_in_unit_interval (U2 L ! i))"
proof (intro conjI allI impI)
  note len = candidates_lengths [OF assms]
  note D = candidates_Inr_D [OF assms]
  have mask: "valid L ! i \<longleftrightarrow>
      finite_in_unit_interval (U1 L ! i) \<and> finite_in_unit_interval (U2 L ! i)"
    if "i < nat (oversample_count n)" for i
    using that len D(9) validity_mask_nth [of "U1 L" "U2 L" i]
    by (simp add: pair_valid_def coordinate_valid_iff_value)
  show "valid L ! i \<longleftrightarrow>
      finite_in_unit_interval (U1 L ! i) \<and> finite_in_unit_interval (U2 L ! i)"
    if "i < nat (oversample_count n)" for i
    by (rule mask [OF that])
  let ?B = "\<lparr>shape = (length (kept_indices n (valid L)), 2),
            rows = map (\<lambda>i. [U1 L ! i, U2 L ! i]) (kept_indices n (valid L))\<rparr>"
  have "\<forall>r \<in> set (rows ?B). \<exists>u1 u2. r = [u1, u2] \<and>
               finite_in_unit_interval u1 \<and> finite_in_unit_interval u2"
  proof
    fix r assume "r \<in> set (rows ?B)"
    then obtain i where i: "i \<in> set (kept_indices n (valid L))" and r: "r = [U1 L ! i, U2 L ! i]"
      by auto
    have "i < nat (oversample_count n)" and "valid L ! i"
      using kept_indices_set [OF i] len by simp_all
    then have "finite_in_unit_interval (U1 L ! i) \<and> finite_in_unit_interval (U2 L ! i)"
      using mask [of i] by simp
    then show "\<exists>u1 u2. r = [u1, u2] \<and>
               finite_in_unit_interval u1 \<and> finite_in_unit_interval u2"
      using r by blast
  qed
  then show "\<exists>B. gumbel_copula_sample np n theta g = (Inr B, g') \<and>
            (\<forall>r \<in> set (rows B). \<exists>u1 u2. r = [u1, u2] \<and>
               finite_in_unit_interval u1 \<and> finite_in_unit_interval u2)"
    using sample_of_candidates [OF assms] by blast
qed

theorem returned_pairs_valid_witness:
  "gumbel_candidates table_np 2 f64_2_5 tape_three = (Inr locals_hole, []) \<and>
   gumbel_copula_sample table_np 2 f64_2_5 tape_three =
     (Inr \<lparr>shape = (2, 2),
           rows = [[0x3FDA7020CCB2B5AF, 0x3FE05FE23673165A],
                   [0x3FC6E2094E1FE61A, 0x3FD15BF7C81B45CC]]\<rparr>, []) \<and>
   finite_in_unit_interval 0x3FDA7020CCB2B5AF \<and> finite_in_unit_interval 0x3FE05FE23673165A \<and>
   finite_in_unit_interval 0x3FC6E2094E1FE61A \<and> finite_in_unit_interval 0x3FD15BF7C81B45CC \<and>
   (1::nat) < nat (oversample_count 2) \<and>
   \<not> valid locals_hole ! 1 \<and>
   \<not> (finite_in_unit_interval (U1 locals_hole ! 1) \<and>
      finite_in_unit_interval (U2 locals_hole ! 1))"
proof -
  have i: "(1::nat) < nat (oversample_count 2)" by (simp add: oversample_count_def)
  have v: "\<not> valid locals_hole ! 1" by (simp add: locals_hole_def)
  show ?thesis
    using returned_pairs_valid [OF run_hole] run_hole sample_hole i v by auto
qed

text \<open>
  C3. At each candidate index \<open>i\<close> the array code computes both coordinates with the
  formula of the specification, \<open>U = exp(-(E / V)^(1/theta))\<close>, from that index's own
  exponential draws \<open>E1 ! i\<close> and \<open>E2 ! i\<close> and from the one stable variate \<open>V ! i\<close>,
  shared by both coordinates of the pair.
\<close>

theorem candidate_pair_formula:
  assumes "gumbel_candidates np n theta g = (Inr L, g')" and "i < nat (oversample_count n)"
  shows "U1 L ! i = gumbel_transform np theta (E1 L ! i) (V L ! i) \<and>
         U2 L ! i = gumbel_transform np theta (E2 L ! i) (V L ! i)"
proof -
  note len = candidates_lengths [OF assms(1)]
  note D = candidates_Inr_D [OF assms(1)]
  have i: "i < length (V L)" using assms(2) len by simp
  have "U1 L ! i = gumbel_transform np theta (E1 L ! i) (V L ! i)"
    using copula_coordinate_Inr(2) [OF D(7) _ i] len by simp
  moreover have "U2 L ! i = gumbel_transform np theta (E2 L ! i) (V L ! i)"
    using copula_coordinate_Inr(2) [OF D(8) _ i] len by simp
  ultimately show ?thesis by simp
qed

theorem candidate_pair_formula_witness:
  "gumbel_candidates table_np 2 f64_2_5 tape_three = (Inr locals_hole, []) \<and>
   (2::nat) < nat (oversample_count 2) \<and>
   U1 locals_hole ! 2 = gumbel_transform table_np f64_2_5 (E1 locals_hole ! 2) (V locals_hole ! 2) \<and>
   U2 locals_hole ! 2 = gumbel_transform table_np f64_2_5 (E2 locals_hole ! 2) (V locals_hole ! 2)"
proof -
  have i: "(2::nat) < nat (oversample_count 2)" by (simp add: oversample_count_def)
  show ?thesis using candidate_pair_formula [OF run_hole i] run_hole i by simp
qed

text \<open>
  C4. \<open>W1\<close> is drawn with \<^verbatim>\<open>np.random.uniform(1e-10, np.pi - 1e-10, n_sample)\<close> and \<open>W2\<close>
  after it with \<^verbatim>\<open>np.random.exponential(1, n_sample)\<close>; with \<open>alpha_stable = 1.0 / theta\<close>,
  the stable variate of each candidate is \<open>tan(W1)\<close> when \<open>alpha_stable == 1\<close>, and the CMS
  formula of the specification on that candidate's \<open>W1\<close> and \<open>W2\<close> otherwise. (What
  distribution the two draws have is a property of NumPy's generator, a parameter here.)
\<close>

theorem stable_variate_formula:
  assumes "gumbel_candidates np n theta g = (Inr L, g')" and "i < nat (oversample_count n)"
  shows "alpha_stable L = fdiv np f64_one theta \<and>
         W1 L = fst (draw (random_uniform np f64_1e_10 (fsub np f64_pi f64_1e_10))
                       (nat (oversample_count n)) g) \<and>
         W2 L = fst (draw (random_exponential np f64_one) (nat (oversample_count n))
                       (snd (draw (random_uniform np f64_1e_10 (fsub np f64_pi f64_1e_10))
                               (nat (oversample_count n)) g))) \<and>
         V L ! i = (if f64_eq (alpha_stable L) f64_one then np_tan np (W1 L ! i)
                    else cms_transform np (alpha_stable L) (W1 L ! i) (W2 L ! i))"
proof -
  note len = candidates_lengths [OF assms(1)]
  note D = candidates_Inr_D [OF assms(1)]
  have i: "i < length (W1 L)" using assms(2) len by simp
  have eq: "length (W1 L) = length (W2 L)" using len by simp
  have "V L ! i = (if f64_eq (alpha_stable L) f64_one then np_tan np (W1 L ! i)
                    else cms_transform np (alpha_stable L) (W1 L ! i) (W2 L ! i))"
    by (rule stable_variates_Inr(3) [OF D(6) eq i])
  then show ?thesis
    using D(3) candidate_draws_fst [OF D(5)] by simp
qed

theorem stable_variate_formula_witness:
  "gumbel_candidates table_np 2 f64_2_5 tape_three = (Inr locals_hole, []) \<and>
   (0::nat) < nat (oversample_count 2) \<and>
   \<not> f64_eq (alpha_stable locals_hole) f64_one \<and>
   V locals_hole ! 0 =
     cms_transform table_np (alpha_stable locals_hole) (W1 locals_hole ! 0) (W2 locals_hole ! 0) \<and>
   gumbel_candidates table_np 1 f64_one tape_one = (Inr locals_cauchy, []) \<and>
   (0::nat) < nat (oversample_count 1) \<and>
   f64_eq (alpha_stable locals_cauchy) f64_one \<and>
   V locals_cauchy ! 0 = np_tan table_np (W1 locals_cauchy ! 0)"
proof -
  have i: "(0::nat) < nat (oversample_count 2)" and j: "(0::nat) < nat (oversample_count 1)"
    by (simp_all add: oversample_count_def)
  have a: "\<not> f64_eq (alpha_stable locals_hole) f64_one"
    by (simp add: locals_hole_def f64_defs)
  have b: "f64_eq (alpha_stable locals_cauchy) f64_one"
    by (simp add: locals_cauchy_def f64_defs)
  show ?thesis
    using stable_variate_formula [OF run_hole i] stable_variate_formula [OF run_cauchy j]
      run_hole run_cauchy i j a b
    by simp
qed

text \<open>
  C5. The returned array (or the error raised) is a function of \<open>n\<close>, \<open>theta\<close> and the
  values the run draws from the generator: two runs entered in generator states that
  yield the same draws return the same result, bit for bit. Two runs entered in the same
  state, such as the state \<^verbatim>\<open>np.random.seed(s)\<close> leaves for a fixed \<open>s\<close>, are a case of
  this; nothing else (no clock, no other state) enters the result.
\<close>

theorem sample_determined_by_draws:
  assumes "candidate_draws np (nat (oversample_count n)) g =
           candidate_draws np (nat (oversample_count n)) h"
  shows "fst (gumbel_copula_sample np n theta g) = fst (gumbel_copula_sample np n theta h)"
proof -
  have step: "fst (gumbel_copula_sample np n theta a) = fst (gumbel_copula_sample np n theta b)"
    if L: "gumbel_candidates np n theta a = (Inr L, a')"
      and d: "candidate_draws np (nat (oversample_count n)) a =
              candidate_draws np (nat (oversample_count n)) b"
    for a a' b :: 'a and L
  proof -
    note D = candidates_Inr_D [OF L]
    have al: "f64_eq (fdiv np f64_one theta) f64_one \<or> \<not> f64_is_zero (fdiv np f64_one theta)"
      using stable_variates_Inr(2) [OF D(6)] candidates_lengths [OF L] D(3) by simp
    obtain M b' where M: "gumbel_candidates np n theta b = (Inr M, b')"
      using candidates_ok [OF D(1) D(2) al, of b] by blast
    note same = candidates_same_draws [OF L M d]
    show ?thesis
      unfolding sample_of_candidates [OF L] sample_of_candidates [OF M] by (simp add: same)
  qed
  obtain r g' where rg: "gumbel_candidates np n theta g = (r, g')"
    by (cases "gumbel_candidates np n theta g")
  obtain s h' where sh: "gumbel_candidates np n theta h = (s, h')"
    by (cases "gumbel_candidates np n theta h")
  show ?thesis
  proof (cases r)
    case (Inr L)
    then show ?thesis using step [of g L g' h] rg assms by simp
  next
    case r: (Inl e)
    show ?thesis
    proof (cases s)
      case (Inr M)
      then show ?thesis using step [of h M h' g] sh assms by simp
    next
      case s: (Inl e')
      have "e = e'"
        using candidates_Inl_D [of np n theta g e g'] candidates_Inl_D [of np n theta h e' h']
          rg sh r s by simp
      then show ?thesis
        using rg sh r s by (simp add: gumbel_copula_sample_def)
    qed
  qed
qed

theorem sample_determined_by_draws_witness:
  "candidate_draws table_np (nat (oversample_count 1)) tape_one =
   candidate_draws table_np (nat (oversample_count 1)) (tape_one @ [f64_two]) \<and>
   fst (gumbel_copula_sample table_np 1 f64_one tape_one) =
   fst (gumbel_copula_sample table_np 1 f64_one (tape_one @ [f64_two]))"
proof -
  have d: "candidate_draws table_np (nat (oversample_count 1)) tape_one =
           candidate_draws table_np (nat (oversample_count 1)) (tape_one @ [f64_two])"
    by (simp add: candidate_draws_def oversample_count_def table_np_def tape_next_def tape_one_def)
  show ?thesis using sample_determined_by_draws [OF d] d by simp
qed

text \<open>
  C6. The claim: every \<open>theta < 1\<close> and every \<open>n \<le> 0\<close> is rejected at once with an
  InvalidParameter error. The source validates neither parameter and has no such error:
  \<open>theta = 0.5\<close> with \<open>n = 1\<close> is computed and returns a pair, and \<open>n = 0\<close> returns the
  empty batch.
\<close>

theorem low_theta_and_zero_n_accepted:
  "f64_lt f64_half f64_one \<and>
   gumbel_copula_sample table_np 1 f64_half tape_one =
     (Inr \<lparr>shape = (1, 2), rows = [[0x3FE67B1AF3EBFEA8, 0x3FED4BE7BD94B1F7]]\<rparr>, []) \<and>
   gumbel_copula_sample table_np 0 f64_one tape_one =
     (Inr \<lparr>shape = (0, 2), rows = []\<rparr>, tape_one)"
proof -
  have "f64_lt f64_half f64_one" by (simp add: f64_defs)
  moreover have "gumbel_copula_sample table_np 0 f64_one tape_one =
     (Inr \<lparr>shape = (0, 2), rows = []\<rparr>, tape_one)"
    by (rule sample_zero) (simp_all add: f64_defs table_defs)
  ultimately show ?thesis using sample_low_theta by simp
qed

text \<open>
  C6, as amended. A negative \<open>n\<close> (with \<open>theta\<close> not a zero) makes NumPy reject the size
  of the first draw (ValueError), and \<open>theta = 0\<close> makes \<^verbatim>\<open>1.0 / theta\<close> raise
  (ZeroDivisionError, whatever \<open>n\<close> is). Both happen before any value is drawn: the
  generator state is returned untouched.
\<close>

theorem failures_before_any_draw:
  "(f64_is_zero theta \<longrightarrow> gumbel_copula_sample np n theta g = (Inl ZeroDivisionError, g)) \<and>
   (\<not> f64_is_zero theta \<and> n < 0 \<longrightarrow> gumbel_copula_sample np n theta g = (Inl ValueError, g))"
  by (simp add: sample_zero_theta sample_negative)

theorem failures_before_any_draw_witness:
  "f64_is_zero f64_zero \<and>
   gumbel_copula_sample table_np 1 f64_zero tape_one = (Inl ZeroDivisionError, tape_one) \<and>
   \<not> f64_is_zero f64_half \<and> (- 1 :: int) < 0 \<and>
   gumbel_copula_sample table_np (- 1) f64_half tape_one = (Inl ValueError, tape_one)"
proof -
  have z: "f64_is_zero f64_zero" and h: "\<not> f64_is_zero f64_half"
    by (simp_all add: f64_defs)
  show ?thesis
    using failures_before_any_draw [where theta = f64_zero and np = table_np and n = 1
        and g = tape_one]
      failures_before_any_draw [where theta = f64_half and np = table_np and n = "- 1"
        and g = tape_one] z h
    by simp
qed

text \<open>
  C7. A request for \<open>n = 0\<close> (with a \<open>theta\<close> whose two reciprocals Python can take: not a
  zero, and \<open>1.0 / theta\<close> not a zero, as for every finite \<open>theta \<ge> 1\<close>) returns the empty
  batch of shape \<open>(0, 2)\<close> without raising and without drawing. With \<open>theta\<close> exactly \<open>1\<close>,
  where \<open>1.0 / 1.0\<close> is \<open>1.0\<close>, a run for any \<open>n \<ge> 0\<close> takes the branch \<open>V = tan(W1)\<close>, makes
  no Python division by \<open>alpha_stable\<close> and returns a batch.
\<close>

theorem boundary_requests:
  "(\<not> f64_is_zero theta \<and> \<not> f64_is_zero (fdiv np f64_one theta) \<longrightarrow>
      gumbel_copula_sample np 0 theta g = (Inr \<lparr>shape = (0, 2), rows = []\<rparr>, g)) \<and>
   (fdiv np f64_one f64_one = f64_one \<and> 0 \<le> n \<longrightarrow>
      (\<exists>L B g'. gumbel_candidates np n f64_one g = (Inr L, g') \<and>
         V L = map (np_tan np) (W1 L) \<and>
         gumbel_copula_sample np n f64_one g = (Inr B, g')))"
proof (intro conjI impI)
  assume "\<not> f64_is_zero theta \<and> \<not> f64_is_zero (fdiv np f64_one theta)"
  then show "gumbel_copula_sample np 0 theta g = (Inr \<lparr>shape = (0, 2), rows = []\<rparr>, g)"
    by (intro sample_zero) simp_all
next
  assume a: "fdiv np f64_one f64_one = f64_one \<and> 0 \<le> n"
  have one: "f64_eq f64_one f64_one" by (simp add: f64_defs)
  have nz: "\<not> f64_is_zero f64_one" by (rule f64_eq_one_nonzero [OF one])
  have al: "f64_eq (fdiv np f64_one f64_one) f64_one \<or> \<not> f64_is_zero (fdiv np f64_one f64_one)"
    using a one by simp
  obtain L g' where L: "gumbel_candidates np n f64_one g = (Inr L, g')"
    using candidates_ok [OF _ nz al, of n g] a by blast
  note D = candidates_Inr_D [OF L]
  have "alpha_stable L = f64_one" using D(3) a by simp
  then have "V L = map (np_tan np) (W1 L)"
    using D(6) one by (simp add: stable_variates_def arr_map_def)
  then show "\<exists>L B g'. gumbel_candidates np n f64_one g = (Inr L, g') \<and>
         V L = map (np_tan np) (W1 L) \<and>
         gumbel_copula_sample np n f64_one g = (Inr B, g')"
    using L sample_of_candidates [OF L] by blast
qed

theorem boundary_requests_witness:
  "\<not> f64_is_zero f64_2_5 \<and> \<not> f64_is_zero (fdiv table_np f64_one f64_2_5) \<and>
   gumbel_copula_sample table_np 0 f64_2_5 tape_one =
     (Inr \<lparr>shape = (0, 2), rows = []\<rparr>, tape_one) \<and>
   fdiv table_np f64_one f64_one = f64_one \<and> (0::int) \<le> 1 \<and>
   gumbel_candidates table_np 1 f64_one tape_one = (Inr locals_cauchy, []) \<and>
   V locals_cauchy = map (np_tan table_np) (W1 locals_cauchy) \<and>
   gumbel_copula_sample table_np 1 f64_one tape_one =
     (Inr \<lparr>shape = (1, 2), rows = [[0x3FE0D68CBD98940B, 0x3FE736645FB981C8]]\<rparr>, [])"
proof -
  have a: "\<not> f64_is_zero f64_2_5" "\<not> f64_is_zero (fdiv table_np f64_one f64_2_5)"
    and b: "fdiv table_np f64_one f64_one = f64_one"
    by (simp_all add: f64_defs table_defs)
  show ?thesis
    using boundary_requests [where theta = f64_2_5 and np = table_np and g = tape_one
        and n = 1] a b run_cauchy sample_cauchy
    by auto
qed

text \<open>
  C8. The claim: \<open>1.5\<close> times \<open>n\<close> candidates are drawn. For \<open>n = 1\<close> the source draws one
  candidate, not \<open>1.5\<close>: the count is \<^verbatim>\<open>int(n * 1.5)\<close>, the product truncated.
\<close>

theorem one_candidate_for_one_sample:
  "gumbel_candidates table_np 1 f64_one tape_one = (Inr locals_cauchy, []) \<and>
   n_sample locals_cauchy = 1 \<and>
   length (W1 locals_cauchy) = 1 \<and> length (V locals_cauchy) = 1 \<and>
   length (U1 locals_cauchy) = 1 \<and> length (U2 locals_cauchy) = 1 \<and>
   2 * int (length (U1 locals_cauchy)) \<noteq> 3 * 1"
  using run_cauchy by (simp add: locals_cauchy_def)

text \<open>
  C8, as amended. A run that reaches the mask (so \<open>n \<ge> 0\<close>), for \<open>n\<close> in the range where
  the product \<^verbatim>\<open>n * 1.5\<close> is exact, draws \<open>3 n div 2\<close> candidates, which is \<open>1.5\<close> times \<open>n\<close>
  exactly when \<open>n\<close> is even, and \<open>W1\<close>, \<open>W2\<close>, \<open>V\<close>, \<open>E1\<close>, \<open>E2\<close>, \<open>U1\<close>, \<open>U2\<close> and the
  mask all have that length.
\<close>

theorem candidate_array_lengths:
  assumes "gumbel_candidates np n theta g = (Inr L, g')" and "3 * n < 2 ^ 53"
  shows "0 \<le> n \<and> n_sample L = (3 * n) div 2 \<and> (2 * n_sample L = 3 * n \<longleftrightarrow> even n) \<and>
         length (W1 L) = nat (n_sample L) \<and> length (W2 L) = nat (n_sample L) \<and>
         length (V L) = nat (n_sample L) \<and>
         length (E1 L) = nat (n_sample L) \<and> length (E2 L) = nat (n_sample L) \<and>
         length (U1 L) = nat (n_sample L) \<and> length (U2 L) = nat (n_sample L) \<and>
         length (valid L) = nat (n_sample L)"
proof -
  note len = candidates_lengths [OF assms(1)]
  note D = candidates_Inr_D [OF assms(1)]
  have ns: "n_sample L = (3 * n) div 2" using D(1) D(4) by (simp add: oversample_count_def)
  have "2 * ((3 * n) div 2) = 3 * n \<longleftrightarrow> even n" by presburger
  then show ?thesis using len D(1) D(4) ns by simp
qed

theorem candidate_array_lengths_witness:
  "gumbel_candidates table_np 2 f64_2_5 tape_three = (Inr locals_hole, []) \<and>
   (3 * 2 :: int) < 2 ^ 53 \<and>
   n_sample locals_hole = 3 \<and> 2 * n_sample locals_hole = 3 * 2 \<and>
   length (W1 locals_hole) = 3 \<and> length (W2 locals_hole) = 3 \<and>
   length (V locals_hole) = 3 \<and>
   length (E1 locals_hole) = 3 \<and> length (E2 locals_hole) = 3 \<and>
   length (U1 locals_hole) = 3 \<and> length (U2 locals_hole) = 3 \<and>
   length (valid locals_hole) = 3"
proof -
  have b: "(3 * 2 :: int) < 2 ^ 53" by simp
  show ?thesis using candidate_array_lengths [OF run_hole b] run_hole by simp
qed

text \<open>
  C9. For \<open>n \<ge> 0\<close> and \<open>theta > 0\<close> (whose reciprocal \<open>1.0 / theta\<close> is not a zero, as for
  every finite \<open>theta > 0\<close>) the run returns an array with exactly two columns, whose row
  count is the minimum of \<open>n\<close> and the number of candidates of the oversampled batch that
  pass the validity predicate; it never exceeds \<open>n\<close>.
\<close>

theorem batch_shape:
  assumes "0 \<le> n" and "f64_lt f64_zero theta"
    and "\<not> f64_is_zero (fdiv np f64_one theta)"
  shows "\<exists>L B g'. gumbel_candidates np n theta g = (Inr L, g') \<and>
           gumbel_copula_sample np n theta g = (Inr B, g') \<and>
           shape B = (min (nat n)
                        (length (filter (\<lambda>i. pair_valid (U1 L ! i) (U2 L ! i))
                                   [0..<nat (oversample_count n)])), 2) \<and>
           fst (shape B) \<le> nat n \<and>
           length (rows B) = fst (shape B) \<and>
           list_all (\<lambda>r. length r = snd (shape B)) (rows B)"
proof -
  have nz: "\<not> f64_is_zero theta" by (rule f64_lt_zero_nonzero [OF assms(2)])
  obtain L g' where L: "gumbel_candidates np n theta g = (Inr L, g')"
    using candidates_ok [OF assms(1) nz, of np g] assms(3) by blast
  note len = candidates_lengths [OF L]
  note D = candidates_Inr_D [OF L]
  let ?k = "nat (oversample_count n)"
  let ?B = "\<lparr>shape = (length (kept_indices n (valid L)), 2),
            rows = map (\<lambda>i. [U1 L ! i, U2 L ! i]) (kept_indices n (valid L))\<rparr>"
  have B: "gumbel_copula_sample np n theta g = (Inr ?B, g')"
    by (rule sample_of_candidates [OF L])
  have "filter (\<lambda>i. valid L ! i) [0..<?k] =
        filter (\<lambda>i. pair_valid (U1 L ! i) (U2 L ! i)) [0..<?k]"
    using len D(9) by (intro filter_cong) (simp_all add: validity_mask_nth)
  then have cnt: "length (kept_indices n (valid L)) =
      min (nat n) (length (filter (\<lambda>i. pair_valid (U1 L ! i) (U2 L ! i)) [0..<?k]))"
    using len by (simp add: kept_indices_def min.commute)
  have "shape ?B = (min (nat n)
                        (length (filter (\<lambda>i. pair_valid (U1 L ! i) (U2 L ! i)) [0..<?k])), 2) \<and>
        fst (shape ?B) \<le> nat n \<and> length (rows ?B) = fst (shape ?B) \<and>
        list_all (\<lambda>r. length r = snd (shape ?B)) (rows ?B)"
    using cnt by (simp add: list_all_iff)
  then show ?thesis using L B by blast
qed

theorem batch_shape_witness:
  "(0::int) \<le> 2 \<and> f64_lt f64_zero f64_two \<and> \<not> f64_is_zero (fdiv table_np f64_one f64_two) \<and>
   (\<exists>L B g'. gumbel_candidates table_np 2 f64_two tape_three = (Inr L, g') \<and>
      gumbel_copula_sample table_np 2 f64_two tape_three = (Inr B, g') \<and>
      shape B = (min (nat 2)
                   (length (filter (\<lambda>i. pair_valid (U1 L ! i) (U2 L ! i))
                              [0..<nat (oversample_count 2)])), 2) \<and>
      fst (shape B) \<le> nat 2 \<and>
      length (rows B) = fst (shape B) \<and>
      list_all (\<lambda>r. length r = snd (shape B)) (rows B)) \<and>
   gumbel_copula_sample table_np 2 f64_two tape_three =
     (Inr \<lparr>shape = (2, 2),
           rows = [[0x3FDBD301543B9CEF, 0x3FE1C19494B334CE],
                   [0x3FE1434E5284C520, 0x3FE4AEED415E80CC]]\<rparr>, []) \<and>
   length (filter (\<lambda>b. b) (valid locals_full)) = 3"
proof -
  have a: "(0::int) \<le> 2" "f64_lt f64_zero f64_two"
    "\<not> f64_is_zero (fdiv table_np f64_one f64_two)"
    by (simp_all add: f64_defs table_defs)
  have c: "length (filter (\<lambda>b. b) (valid locals_full)) = 3" by (simp add: locals_full_def)
  show ?thesis
    using batch_shape [OF a, of tape_three] a c sample_full by simp
qed

text \<open>
  C10. The same mask selects from \<open>U1\<close> and from \<open>U2\<close>: the rows of the returned array are
  the pairs \<open>(U1 ! i, U2 ! i)\<close> at the candidate indices \<open>i\<close> where the mask holds, taken
  in increasing order of \<open>i\<close> (the order of the draws) up to \<open>n\<close> of them; at each such index
  both coordinates come from the same stable variate \<open>V ! i\<close>.
\<close>

theorem rows_share_index_in_draw_order:
  assumes "gumbel_candidates np n theta g = (Inr L, g')"
  shows "\<exists>B. gumbel_copula_sample np n theta g = (Inr B, g') \<and>
           rows B = map (\<lambda>i. [U1 L ! i, U2 L ! i]) (kept_indices n (valid L)) \<and>
           sorted_wrt (<) (kept_indices n (valid L)) \<and>
           list_all (\<lambda>i. i < nat (oversample_count n) \<and> valid L ! i \<and>
                      U1 L ! i = gumbel_transform np theta (E1 L ! i) (V L ! i) \<and>
                      U2 L ! i = gumbel_transform np theta (E2 L ! i) (V L ! i))
             (kept_indices n (valid L))"
proof -
  note len = candidates_lengths [OF assms]
  note D = candidates_Inr_D [OF assms]
  have "i < nat (oversample_count n) \<and> valid L ! i \<and>
        U1 L ! i = gumbel_transform np theta (E1 L ! i) (V L ! i) \<and>
        U2 L ! i = gumbel_transform np theta (E2 L ! i) (V L ! i)"
    if "i \<in> set (kept_indices n (valid L))" for i
  proof -
    have i: "i < length (V L)" and v: "valid L ! i"
      using kept_indices_set [OF that] len by simp_all
    have "U1 L ! i = gumbel_transform np theta (E1 L ! i) (V L ! i)"
      using copula_coordinate_Inr(2) [OF D(7) _ i] len by simp
    moreover have "U2 L ! i = gumbel_transform np theta (E2 L ! i) (V L ! i)"
      using copula_coordinate_Inr(2) [OF D(8) _ i] len by simp
    ultimately show ?thesis using i v len by simp
  qed
  then have "list_all (\<lambda>i. i < nat (oversample_count n) \<and> valid L ! i \<and>
                      U1 L ! i = gumbel_transform np theta (E1 L ! i) (V L ! i) \<and>
                      U2 L ! i = gumbel_transform np theta (E2 L ! i) (V L ! i))
             (kept_indices n (valid L))"
    by (simp add: list_all_iff)
  then show ?thesis
    using sample_of_candidates [OF assms] kept_indices_sorted [of n "valid L"] by simp
qed

theorem rows_share_index_in_draw_order_witness:
  "gumbel_candidates table_np 2 f64_2_5 tape_three = (Inr locals_hole, []) \<and>
   kept_indices 2 (valid locals_hole) = [0, 2] \<and>
   (\<exists>B. gumbel_copula_sample table_np 2 f64_2_5 tape_three = (Inr B, []) \<and>
      rows B = [[U1 locals_hole ! 0, U2 locals_hole ! 0], [U1 locals_hole ! 2, U2 locals_hole ! 2]]) \<and>
   U1 locals_hole ! 2 = gumbel_transform table_np f64_2_5 (E1 locals_hole ! 2) (V locals_hole ! 2) \<and>
   U2 locals_hole ! 2 = gumbel_transform table_np f64_2_5 (E2 locals_hole ! 2) (V locals_hole ! 2)"
proof -
  have k: "kept_indices 2 (valid locals_hole) = [0, 2]"
    by (simp add: kept_indices_def locals_hole_def upt_conv_Cons)
  show ?thesis
    using rows_share_index_in_draw_order [OF run_hole] run_hole k by auto
qed

end
